theory Spec2Isabelle
  imports Main "HOL-Library.AList" "HOL-Library.Sublist"
begin

section \<open>The command front-end of Mazer: ansible_galaxy_cli/cli/galaxy.py\<close>

text \<open>
  A shallow embedding of \<^verbatim>\<open>src/ansible_galaxy_cli/cli/galaxy.py\<close>. Python values that
  the module handles dynamically are values of \<open>pyval\<close>; exceptions are the left summand of a
  sum type; the attributes of the \<^verbatim>\<open>GalaxyCLI\<close> object, the store of dict objects and the
  record of observable effects (log records, constructed objects, calls of the external
  collaborators) are the fields of one state record that every method takes and returns.
\<close>

subsection \<open>Python values\<close>

datatype pyval = PNone | PBool bool | PInt int | PStr string

text \<open>Truth value testing (\<^verbatim>\<open>if x:\<close>, \<^verbatim>\<open>x or y\<close>, \<^verbatim>\<open>x and y\<close>).\<close>

fun truthy :: "pyval \<Rightarrow> bool" where
  "truthy PNone = False"
| "truthy (PBool b) = b"
| "truthy (PInt i) = (i \<noteq> 0)"
| "truthy (PStr s) = (s \<noteq> [])"

text \<open>\<^verbatim>\<open>x or y\<close>: the first operand when it is true, the second otherwise.\<close>

definition py_or :: "pyval \<Rightarrow> pyval \<Rightarrow> pyval" where
  "py_or x y = (if truthy x then x else y)"

text \<open>
  Exceptions. \<open>OtherError\<close> stands for any exception class derived from \<^verbatim>\<open>Exception\<close> that
  the module does not name (what an external handler may raise), \<open>NonException\<close> for the
  classes derived from \<^verbatim>\<open>BaseException\<close> only (\<^verbatim>\<open>KeyboardInterrupt\<close>, \<^verbatim>\<open>SystemExit\<close>),
  which \<^verbatim>\<open>except Exception\<close> does not catch.
\<close>

datatype exn =
    CliOptionsError string
  | GalaxyCliError string
  | TypeError
  | AttributeError string
  | UnboundLocalError string
  | OtherError string
  | NonException string

fun is_Exception :: "exn \<Rightarrow> bool" where
  "is_Exception (NonException n) = False"
| "is_Exception e = True"

text \<open>
  An object with attributes (the \<^verbatim>\<open>optparse\<close> values object) is a map from attribute names
  to values: \<^verbatim>\<open>hasattr(o, n)\<close>, \<^verbatim>\<open>getattr(o, n)\<close> and \<^verbatim>\<open>o.n\<close> (which raise
  \<^verbatim>\<open>AttributeError\<close> on a missing attribute) and \<^verbatim>\<open>getattr(o, n, None)\<close>.
\<close>

type_synonym pyobject = "string \<rightharpoonup> pyval"

definition hasattr :: "pyobject \<Rightarrow> string \<Rightarrow> bool" where
  "hasattr obj n = (obj n \<noteq> None)"

definition getattr :: "pyobject \<Rightarrow> string \<Rightarrow> exn + pyval" where
  "getattr obj n = (case obj n of None \<Rightarrow> Inl (AttributeError n) | Some v \<Rightarrow> Inr v)"

definition getattr_default :: "pyobject \<Rightarrow> string \<Rightarrow> pyval \<Rightarrow> pyval" where
  "getattr_default obj n d = (case obj n of None \<Rightarrow> d | Some v \<Rightarrow> v)"

text \<open>Sequencing of computations that may raise.\<close>

definition and_then :: "exn + 'a \<Rightarrow> ('a \<Rightarrow> exn + 'b) \<Rightarrow> exn + 'b" where
  "and_then m f = (case m of Inl e \<Rightarrow> Inl e | Inr x \<Rightarrow> f x)"

subsection \<open>The operating system interface used by the module\<close>

text \<open>
  The ambient state that \<^verbatim>\<open>os.environ\<close>, \<^verbatim>\<open>os.getcwd\<close> and \<^verbatim>\<open>os.path.expanduser\<close> read:
  the environment variables, the current directory, the home directory of the current user
  in the password database (\<open>None\<close> when \<^verbatim>\<open>pwd.getpwuid\<close> raises \<^verbatim>\<open>KeyError\<close>) and the
  home directories of the named users.
\<close>

record os_env =
  environ :: "string \<rightharpoonup> string"
  getcwd :: string
  pw_dir_uid :: "string option"
  pw_dir_nam :: "string \<rightharpoonup> string"

definition sep :: char where
  "sep = CHR ''/''"

text \<open>\<^verbatim>\<open>s.rstrip('/')\<close>.\<close>

definition rstrip_sep :: "string \<Rightarrow> string" where
  "rstrip_sep s = rev (dropWhile (\<lambda>c. c = sep) (rev s))"

text \<open>
  \<^verbatim>\<open>os.path.expanduser\<close> of the standard library (posixpath). A path that does not start
  with \<^verbatim>\<open>~\<close> is returned as it is. Otherwise \<open>name\<close> is \<^verbatim>\<open>path[1:i]\<close> and \<open>rest\<close> is
  \<^verbatim>\<open>path[i:]\<close>, for \<open>i\<close> the index of the first separator (or the length of the path): an
  empty name takes the home directory from \<^verbatim>\<open>HOME\<close>, or from the password database when
  \<^verbatim>\<open>HOME\<close> is not set; a name takes the directory of that user; an unknown user leaves the
  path unchanged.
\<close>

definition userhome :: "os_env \<Rightarrow> string \<Rightarrow> string option" where
  "userhome os name =
     (if name = [] then
        (case environ os ''HOME'' of None \<Rightarrow> pw_dir_uid os | Some h \<Rightarrow> Some h)
      else pw_dir_nam os name)"

definition expand_with :: "string option \<Rightarrow> string \<Rightarrow> string \<Rightarrow> string" where
  "expand_with home path rest =
     (case home of
        None \<Rightarrow> path
      | Some h \<Rightarrow> (let r = rstrip_sep h @ rest in if r = [] then [sep] else r))"

definition expanduser :: "os_env \<Rightarrow> string \<Rightarrow> string" where
  "expanduser os path =
     (if take 1 path \<noteq> ''~'' then path
      else
        let name = takeWhile (\<lambda>x. x \<noteq> sep) (drop 1 path);
            rest = dropWhile (\<lambda>x. x \<noteq> sep) (drop 1 path)
        in expand_with (userhome os name) path rest)"

text \<open>
  On a value: the standard library raises when the argument is not a string
  (\<^verbatim>\<open>TypeError\<close> from \<^verbatim>\<open>os.fspath\<close> in Python 3).
\<close>

definition py_expanduser :: "os_env \<Rightarrow> pyval \<Rightarrow> exn + string" where
  "py_expanduser os v = (case v of PStr p \<Rightarrow> Inr (expanduser os p) | _ \<Rightarrow> Inl TypeError)"

text \<open>\<^verbatim>\<open>os.path.join(a, b)\<close> for two components.\<close>

definition path_join :: "string \<Rightarrow> string \<Rightarrow> string" where
  "path_join a b =
     (if b \<noteq> [] \<and> hd b = sep then b
      else if a = [] \<or> last a = sep then a @ b
      else a @ [sep] @ b)"

text \<open>\<^verbatim>\<open>s.split('/')\<close> and \<^verbatim>\<open>'/'.join(comps)\<close>.\<close>

fun split_sep :: "string \<Rightarrow> string list" where
  "split_sep [] = [[]]"
| "split_sep (x # xs) =
     (if x = sep then [] # split_sep xs
      else (case split_sep xs of
              [] \<Rightarrow> [[x]]
            | w # ws \<Rightarrow> (x # w) # ws))"

fun join_sep :: "string list \<Rightarrow> string" where
  "join_sep [] = []"
| "join_sep [w] = w"
| "join_sep (w # ws) = w @ [sep] @ join_sep ws"

text \<open>
  \<^verbatim>\<open>os.path.normpath\<close>: the body of its loop over the components, then the function.
  \<open>initial_slashes\<close> is 0, 1 or 2 (exactly two leading slashes are kept).
\<close>

definition normpath_step :: "nat \<Rightarrow> string list \<Rightarrow> string \<Rightarrow> string list" where
  "normpath_step initial_slashes new_comps c =
     (if c = [] \<or> c = ''.'' then new_comps
      else if c \<noteq> ''..'' \<or> (initial_slashes = 0 \<and> new_comps = [])
              \<or> (new_comps \<noteq> [] \<and> last new_comps = ''..'')
           then new_comps @ [c]
      else if new_comps \<noteq> [] then butlast new_comps
      else new_comps)"

definition normpath :: "string \<Rightarrow> string" where
  "normpath path =
     (if path = [] then ''.''
      else
        let initial_slashes =
              (if take 1 path = [sep] then
                 (if take 2 path = [sep, sep] \<and> take 3 path \<noteq> [sep, sep, sep] then 2 else 1)
               else 0);
            comps = foldl (normpath_step initial_slashes) [] (split_sep path);
            p = replicate initial_slashes sep @ join_sep comps
        in if p = [] then ''.'' else p)"

text \<open>\<^verbatim>\<open>os.path.abspath\<close>: a relative path is joined to the current directory.\<close>

definition abspath :: "os_env \<Rightarrow> string \<Rightarrow> string" where
  "abspath os path =
     normpath (if take 1 path = [sep] then path else path_join (getcwd os) path)"

subsection \<open>Objects of the program\<close>

text \<open>
  Dict objects live in a store and are referred to by their address (the index in the
  store), so that \<^verbatim>\<open>d.copy()\<close> and \<^verbatim>\<open>d[k] = v\<close> act on objects as in Python. A dict is an
  association list: assignment to a key replaces the value in place or appends the key.
\<close>

type_synonym addr = nat
type_synonym pydict = "(string \<times> pyval) list"
type_synonym store = "pydict list"

definition deref :: "store \<Rightarrow> addr \<Rightarrow> pydict option" where
  "deref h a = (if a < length h then Some (h ! a) else None)"

definition alloc :: "store \<Rightarrow> pydict \<Rightarrow> addr \<times> store" where
  "alloc h d = (length h, h @ [d])"

definition setitem :: "store \<Rightarrow> addr \<Rightarrow> string \<Rightarrow> pyval \<Rightarrow> store" where
  "setitem h a k v = (if a < length h then h[a := AList.update k v (h ! a)] else h)"

text \<open>
  The configuration document returned by the external loader \<^verbatim>\<open>config.load\<close>: the fields
  this module reads. \<open>server\<close> refers to a dict in the store.
\<close>

record config =
  server :: addr
  content_path :: pyval
  global_content_path :: pyval

text \<open>
  Modelled from the spec: the classes \<^verbatim>\<open>GalaxyContext\<close>
  (ansible_galaxy/models/context.py) and \<^verbatim>\<open>BuildContext\<close>
  (ansible_galaxy/models/build_context.py) are not in src/. Following section 3 of the
  specification they are plain containers of the values given to the constructor: the
  execution context holds the server settings (a reference to the dict it was given) and the
  content path; the build context holds the collection path and the output path.
\<close>

datatype galaxy_context = GalaxyContext (ctx_server: addr) (ctx_content_path: string)

datatype build_context = BuildContext (collection_path: pyval) (output_path: pyval)

text \<open>
  Modelled from the spec: the classes of module \<^verbatim>\<open>ansible_galaxy.matchers\<close> are not in
  src/. This module only constructs them; section 4.4 of the specification names the three
  variants.
\<close>

datatype match_filter =
    MatchAll
  | MatchLabels "string list"
  | MatchNamespacesOrLabels "string list"

text \<open>
  A call of an external action handler, with the arguments in the order of the source
  (the display callback is left out).
\<close>

datatype call =
    Build galaxy_context build_context
  | Info galaxy_context "galaxy_context option" "string list" pyval
  | Install galaxy_context pyval "string list" string pyval pyval pyval pyval
  | Remove galaxy_context match_filter
  | List_action galaxy_context match_filter
  | Version string string

text \<open>
  The observable effects, in the order they happen: the records written by \<^verbatim>\<open>log.info\<close> and
  \<^verbatim>\<open>log.exception\<close>, the construction of an execution context and of the API object, the
  call of the configuration loader and the calls of the action handlers. The
  \<^verbatim>\<open>log.debug\<close> records are not part of the model.
\<close>

datatype event =
    LogInfo string string
  | LogException exn
  | NewContext galaxy_context
  | NewAPI galaxy_context
  | ConfigLoad string
  | Called call

text \<open>
  The state: the attributes of the \<^verbatim>\<open>GalaxyCLI\<close> object (\<open>config_file_path\<close>, \<open>config\<close> are
  \<open>None\<close> until \<^verbatim>\<open>run\<close> assigns them, \<open>api\<close> is \<open>None\<close> after \<^verbatim>\<open>__init__\<close>), the store of
  dict objects and the effects so far.
\<close>

record state =
  action :: string
  options :: pyobject
  args :: "string list"
  config_file_path :: "string option"
  config :: "config option"
  api :: "galaxy_context option"
  heap :: store
  trace :: "event list"

text \<open>
  What the module takes from code outside src/:
  \<^item> \<open>base_parse\<close>: \<^verbatim>\<open>set_action\<close> and \<^verbatim>\<open>parse\<close> of the base class \<^verbatim>\<open>cli.CLI\<close> with the option
    parser; from the argument list they give the action, the options object and the
    positional arguments, or raise;
  \<^item> \<open>base_run\<close>: \<^verbatim>\<open>run\<close> of the base class, which returns or raises;
  \<^item> \<open>CONFIG_FILE\<close>: the constant \<^verbatim>\<open>defaults.CONFIG_FILE\<close>;
  \<^item> \<open>config_load\<close>: \<^verbatim>\<open>config.load\<close>; from the path it gives the contents of the server
    dict, the content path and the global content path, or raises;
  \<^item> \<open>cli_version\<close>: the constant \<^verbatim>\<open>ansible_galaxy_cli.__version__\<close>;
  \<^item> \<open>handler\<close>: the action handlers of \<^verbatim>\<open>ansible_galaxy.actions\<close>; a call returns a value
    or raises.
\<close>

record collaborators =
  base_parse :: "string list \<Rightarrow> exn + (string \<times> pyobject \<times> string list)"
  base_run :: "exn option"
  CONFIG_FILE :: string
  config_load :: "string \<Rightarrow> exn + (pydict \<times> pyval \<times> pyval)"
  cli_version :: string
  handler :: "call \<Rightarrow> exn + pyval"

subsection \<open>Module functions\<close>

definition ignore_error_blurb :: string where
  "ignore_error_blurb =
     ''- you can use --ignore-errors to skip failed content items and finish processing the list.''"

text \<open>
  \<^verbatim>\<open>exit_without_ignore(ignore_errors, msg=None, rc=1)\<close>. The function reads and writes
  nothing but its arguments; \<open>msg\<close> is \<^verbatim>\<open>None\<close> or a string, and \<^verbatim>\<open>'%s:\\n%s'\<close> puts a
  colon and a newline between the message and the blurb.
\<close>

definition exit_without_ignore :: "pyval \<Rightarrow> string option \<Rightarrow> int \<Rightarrow> exn + unit" where
  "exit_without_ignore ignore_errors msg rc =
     (if \<not> truthy ignore_errors then
        (let message =
               (case msg of
                  None \<Rightarrow> ignore_error_blurb
                | Some m \<Rightarrow>
                    if m \<noteq> [] then m @ '':'' @ [CHR 0x0A] @ ignore_error_blurb
                    else ignore_error_blurb)
         in Inl (GalaxyCliError message))
      else Inr ())"

text \<open>
  \<^verbatim>\<open>get_config_path_from_env\<close>: the loop over the names of the environment variables, then
  the function. \<^verbatim>\<open>os.environ.get(env_var, None)\<close> is \<^verbatim>\<open>None\<close> for a variable that is not
  set.
\<close>

fun config_path_from :: "os_env \<Rightarrow> string list \<Rightarrow> state \<Rightarrow> pyval \<times> state" where
  "config_path_from os [] s = (PNone, s)"
| "config_path_from os (env_var # vs) s =
     (let raw_config_file_path =
            (case environ os env_var of None \<Rightarrow> PNone | Some p \<Rightarrow> PStr p)
      in if truthy raw_config_file_path then
           (raw_config_file_path,
            s\<lparr>trace := trace s @
               [LogInfo (case raw_config_file_path of PStr p \<Rightarrow> p | _ \<Rightarrow> []) env_var]\<rparr>)
         else config_path_from os vs s)"

definition get_config_path_from_env :: "os_env \<Rightarrow> state \<Rightarrow> pyval \<times> state" where
  "get_config_path_from_env os s =
     config_path_from os [''MAZER_CONFIG'', ''ANSIBLE_GALAXY_CONFIG''] s"

subsection \<open>The methods of GalaxyCLI\<close>

text \<open>
  \<^verbatim>\<open>parse\<close>: after the base class has parsed the arguments, the check of lines 148-149.
  \<^verbatim>\<open>getattr(self.options, 'content_path')\<close> has no default and \<^verbatim>\<open>and\<close> evaluates its
  operands from left to right, stopping at the first false one.
\<close>

definition parse :: "collaborators \<Rightarrow> state \<Rightarrow> (exn + unit) \<times> state" where
  "parse c s =
     (case base_parse c (args s) of
        Inl e \<Rightarrow> (Inl e, s)
      | Inr (a, opts, rest) \<Rightarrow>
          (let s1 = s\<lparr>action := a, options := opts, args := rest\<rparr>
           in if a = ''install'' then
                (case getattr opts ''content_path'' of
                   Inl e \<Rightarrow> (Inl e, s1)
                 | Inr cp \<Rightarrow>
                     if truthy cp then
                       (case getattr opts ''global_install'' of
                          Inl e \<Rightarrow> (Inl e, s1)
                        | Inr gi \<Rightarrow>
                            if truthy gi then
                              (Inl (CliOptionsError
                                 ''--content-path and --global are mutually exclusive''), s1)
                            else (Inr (), s1))
                     else (Inr (), s1))
              else (Inr (), s1)))"

text \<open>
  \<^verbatim>\<open>_get_galaxy_context(self, options, config)\<close> (an Isabelle name cannot start with an
  underscore). First the value of the local variable \<^verbatim>\<open>raw_content_path\<close> after line 160,
  then the function: the home expansion, the copy of the server dict into a new object, the
  two assignments to the copy, the construction of the context.
\<close>

definition raw_content_path :: "pyobject \<Rightarrow> config \<Rightarrow> pyval" where
  "raw_content_path opts cfg =
     (let options_content_path =
            (if hasattr opts ''content_path'' then getattr_default opts ''content_path'' PNone
             else PNone);
          raw = py_or options_content_path (content_path cfg)
      in if hasattr opts ''global_install''
            \<and> truthy (getattr_default opts ''global_install'' PNone)
         then global_content_path cfg
         else raw)"

definition get_galaxy_context ::
  "os_env \<Rightarrow> pyobject \<Rightarrow> config \<Rightarrow> state \<Rightarrow> (exn + galaxy_context) \<times> state" where
  "get_galaxy_context os opts cfg s =
     (case py_expanduser os (raw_content_path opts cfg) of
        Inl e \<Rightarrow> (Inl e, s)
      | Inr path \<Rightarrow>
          (case deref (heap s) (server cfg) of
             None \<Rightarrow> (Inl (AttributeError ''copy''), s)
           | Some d \<Rightarrow>
               (let (srv, h1) = alloc (heap s) d;
                    h2 = (if truthy (getattr_default opts ''server_url'' PNone)
                          then setitem h1 srv ''url'' (getattr_default opts ''server_url'' PNone)
                          else h1);
                    h3 = (if truthy (getattr_default opts ''ignore_certs'' PNone)
                          then setitem h2 srv ''ignore_certs''
                                 (getattr_default opts ''ignore_certs'' PNone)
                          else h2);
                    galaxy_context = GalaxyContext srv path
                in (Inr galaxy_context,
                    s\<lparr>heap := h3, trace := trace s @ [NewContext galaxy_context]\<rparr>))))"

text \<open>
  Reading \<^verbatim>\<open>self.config\<close> and \<^verbatim>\<open>self.config_file_path\<close>, which exist once \<^verbatim>\<open>run\<close> has
  assigned them, and calling an action handler.
\<close>

definition self_config :: "state \<Rightarrow> exn + config" where
  "self_config s =
     (case config s of None \<Rightarrow> Inl (AttributeError ''config'') | Some cfg \<Rightarrow> Inr cfg)"

definition self_config_file_path :: "state \<Rightarrow> exn + string" where
  "self_config_file_path s =
     (case config_file_path s of
        None \<Rightarrow> Inl (AttributeError ''config_file_path'')
      | Some p \<Rightarrow> Inr p)"

definition invoke :: "collaborators \<Rightarrow> call \<Rightarrow> state \<Rightarrow> (exn + pyval) \<times> state" where
  "invoke c k s = (handler c k, s\<lparr>trace := trace s @ [Called k]\<rparr>)"

text \<open>
  \<^verbatim>\<open>execute_build\<close>. The build context of lines 217-224: the collection path is the option
  or the current directory, the output path the option or \<^verbatim>\<open>releases\<close> under the
  collection path (\<^verbatim>\<open>os.path.join\<close> raises \<^verbatim>\<open>TypeError\<close> on a value that is not a string).
\<close>

definition make_build_context :: "os_env \<Rightarrow> pyobject \<Rightarrow> exn + build_context" where
  "make_build_context os opts =
     and_then (getattr opts ''collection_path'') (\<lambda>cp.
       let collection_path = py_or cp (PStr (getcwd os))
       in and_then (getattr opts ''output_path'') (\<lambda>op.
            and_then
              (if truthy op then Inr op
               else (case collection_path of
                       PStr p \<Rightarrow> Inr (PStr (path_join p ''releases''))
                     | _ \<Rightarrow> Inl TypeError))
              (\<lambda>output_path. Inr (BuildContext collection_path output_path))))"

definition execute_build :: "collaborators \<Rightarrow> os_env \<Rightarrow> state \<Rightarrow> (exn + pyval) \<times> state" where
  "execute_build c os s =
     (case self_config s of
        Inl e \<Rightarrow> (Inl e, s)
      | Inr cfg \<Rightarrow>
          (case get_galaxy_context os (options s) cfg s of
             (Inl e, s1) \<Rightarrow> (Inl e, s1)
           | (Inr galaxy_context, s1) \<Rightarrow>
               (case make_build_context os (options s) of
                  Inl e \<Rightarrow> (Inl e, s1)
                | Inr build_context \<Rightarrow> invoke c (Build galaxy_context build_context) s1)))"

definition execute_info :: "collaborators \<Rightarrow> os_env \<Rightarrow> state \<Rightarrow> (exn + pyval) \<times> state" where
  "execute_info c os s =
     (if length (args s) = 0 then
        (Inl (CliOptionsError ''- you must specify a user/role name''), s)
      else
        (case self_config s of
           Inl e \<Rightarrow> (Inl e, s)
         | Inr cfg \<Rightarrow>
             (case get_galaxy_context os (options s) cfg s of
                (Inl e, s1) \<Rightarrow> (Inl e, s1)
              | (Inr galaxy_context, s1) \<Rightarrow>
                  (case getattr (options s) ''offline'' of
                     Inl e \<Rightarrow> (Inl e, s1)
                   | Inr offline \<Rightarrow>
                       invoke c (Info galaxy_context (api s1) (args s) offline) s1))))"

text \<open>
  \<^verbatim>\<open>execute_install\<close>. The arguments of the call are evaluated inside the \<^verbatim>\<open>try\<close> block, so
  a missing option attribute is handled like an exception of the handler:
  \<^verbatim>\<open>except Exception\<close> logs it with \<^verbatim>\<open>log.exception\<close> and raises it again.
\<close>

definition install_call :: "galaxy_context \<Rightarrow> pyobject \<Rightarrow> string list \<Rightarrow> exn + call" where
  "install_call galaxy_context opts requested_content_specs =
     and_then (getattr opts ''editable_install'') (\<lambda>editable.
     and_then (getattr opts ''namespace'') (\<lambda>namespace_override.
     and_then (getattr opts ''ignore_errors'') (\<lambda>ignore_errors.
     and_then (getattr opts ''no_deps'') (\<lambda>no_deps.
     and_then (getattr opts ''force'') (\<lambda>force_overwrite.
       Inr (Install galaxy_context editable requested_content_specs ''all''
              namespace_override ignore_errors no_deps force_overwrite))))))"

definition except_Exception :: "(exn + pyval) \<times> state \<Rightarrow> (exn + pyval) \<times> state" where
  "except_Exception r =
     (case r of
        (Inl e, s) \<Rightarrow>
          if is_Exception e then (Inl e, s\<lparr>trace := trace s @ [LogException e]\<rparr>)
          else (Inl e, s)
      | (Inr rc, s) \<Rightarrow> (Inr rc, s))"

definition execute_install :: "collaborators \<Rightarrow> os_env \<Rightarrow> state \<Rightarrow> (exn + pyval) \<times> state" where
  "execute_install c os s =
     (case self_config s of
        Inl e \<Rightarrow> (Inl e, s)
      | Inr cfg \<Rightarrow>
          (case get_galaxy_context os (options s) cfg s of
             (Inl e, s1) \<Rightarrow> (Inl e, s1)
           | (Inr galaxy_context, s1) \<Rightarrow>
               except_Exception
                 (case install_call galaxy_context (options s) (args s) of
                    Inl e \<Rightarrow> (Inl e, s1)
                  | Inr k \<Rightarrow> invoke c k s1)))"

text \<open>
  \<^verbatim>\<open>execute_remove\<close>. The local variable \<^verbatim>\<open>match_filter\<close> is bound only when the argument
  list is not empty; reading it unbound raises \<^verbatim>\<open>UnboundLocalError\<close>.
\<close>

definition execute_remove :: "collaborators \<Rightarrow> os_env \<Rightarrow> state \<Rightarrow> (exn + pyval) \<times> state" where
  "execute_remove c os s =
     (if length (args s) = 0 then
        (Inl (CliOptionsError ''- you must specify at least one role to remove.''), s)
      else
        (case self_config s of
           Inl e \<Rightarrow> (Inl e, s)
         | Inr cfg \<Rightarrow>
             (case get_galaxy_context os (options s) cfg s of
                (Inl e, s1) \<Rightarrow> (Inl e, s1)
              | (Inr galaxy_context, s1) \<Rightarrow>
                  (let match_filter =
                         (if args s \<noteq> [] then Some (MatchLabels (args s)) else None)
                   in case match_filter of
                        None \<Rightarrow> (Inl (UnboundLocalError ''match_filter''), s1)
                      | Some mf \<Rightarrow> invoke c (Remove galaxy_context mf) s1))))"

definition execute_list :: "collaborators \<Rightarrow> os_env \<Rightarrow> state \<Rightarrow> (exn + pyval) \<times> state" where
  "execute_list c os s =
     (case self_config s of
        Inl e \<Rightarrow> (Inl e, s)
      | Inr cfg \<Rightarrow>
          (case get_galaxy_context os (options s) cfg s of
             (Inl e, s1) \<Rightarrow> (Inl e, s1)
           | (Inr galaxy_context, s1) \<Rightarrow>
               (let match_filter =
                      (if args s \<noteq> [] then MatchNamespacesOrLabels (args s) else MatchAll)
                in invoke c (List_action galaxy_context match_filter) s1)))"

definition execute_version :: "collaborators \<Rightarrow> os_env \<Rightarrow> state \<Rightarrow> (exn + pyval) \<times> state" where
  "execute_version c os s =
     (case self_config_file_path s of
        Inl e \<Rightarrow> (Inl e, s)
      | Inr p \<Rightarrow> invoke c (Version p (cli_version c)) s)"

text \<open>
  Modelled from the spec: \<^verbatim>\<open>execute\<close> of the base class \<^verbatim>\<open>cli.CLI\<close> is not in src/.
  Sections 4.5 and 9 of the specification describe it as the lookup of the method
  \<^verbatim>\<open>execute_<action>\<close> by the name of the action, which is then called; an action without
  such a method has no attribute to look up.
\<close>

definition execute :: "collaborators \<Rightarrow> os_env \<Rightarrow> state \<Rightarrow> (exn + pyval) \<times> state" where
  "execute c os s =
     (if action s = ''build'' then execute_build c os s
      else if action s = ''info'' then execute_info c os s
      else if action s = ''install'' then execute_install c os s
      else if action s = ''list'' then execute_list c os s
      else if action s = ''remove'' then execute_remove c os s
      else if action s = ''version'' then execute_version c os s
      else (Inl (AttributeError (''execute_'' @ action s)), s))"

text \<open>
  \<^verbatim>\<open>run\<close>. The configuration document that the loader returns is a new object: its server
  dict is put into the store.
\<close>

definition run :: "collaborators \<Rightarrow> os_env \<Rightarrow> state \<Rightarrow> (exn + pyval) \<times> state" where
  "run c os s =
     (case get_config_path_from_env os s of
        (from_env, s1) \<Rightarrow>
          (let raw_config_file_path = py_or from_env (PStr (CONFIG_FILE c))
           in case py_expanduser os raw_config_file_path of
                Inl e \<Rightarrow> (Inl e, s1)
              | Inr expanded \<Rightarrow>
                  (let s2 = s1\<lparr>config_file_path := Some (abspath os expanded)\<rparr>
                   in case base_run c of
                        Some e \<Rightarrow> (Inl e, s2)
                      | None \<Rightarrow>
                          (let s3 = s2\<lparr>trace := trace s2 @ [ConfigLoad (abspath os expanded)]\<rparr>
                           in case config_load c (abspath os expanded) of
                                Inl e \<Rightarrow> (Inl e, s3)
                              | Inr (srv, cp, gcp) \<Rightarrow>
                                  (let (a, h) = alloc (heap s3) srv;
                                       cfg = \<lparr>server = a, content_path = cp,
                                              global_content_path = gcp\<rparr>;
                                       s4 = s3\<lparr>config := Some cfg, heap := h\<rparr>
                                   in case get_galaxy_context os (options s4) cfg s4 of
                                        (Inl e, s5) \<Rightarrow> (Inl e, s5)
                                      | (Inr galaxy_context, s5) \<Rightarrow>
                                          execute c os
                                            (s5\<lparr>api := Some galaxy_context,
                                               trace := trace s5 @ [NewAPI galaxy_context]\<rparr>))))))"

subsection \<open>Reading the record of effects\<close>

text \<open>The handler calls and the paths given to the configuration loader, in order.\<close>

primrec calls :: "event list \<Rightarrow> call list" where
  "calls [] = []"
| "calls (e # tr) = (case e of Called k \<Rightarrow> k # calls tr | _ \<Rightarrow> calls tr)"

primrec loads :: "event list \<Rightarrow> string list" where
  "loads [] = []"
| "loads (e # tr) = (case e of ConfigLoad p \<Rightarrow> p # loads tr | _ \<Rightarrow> loads tr)"

primrec logged :: "event list \<Rightarrow> exn list" where
  "logged [] = []"
| "logged (e # tr) = (case e of LogException x \<Rightarrow> x # logged tr | _ \<Rightarrow> logged tr)"

subsection \<open>Concrete inputs\<close>

definition example_os :: os_env where
  "example_os =
     \<lparr>environ = [''HOME'' \<mapsto> ''/home/alice''], getcwd = ''/work'',
      pw_dir_uid = Some ''/home/alice'', pw_dir_nam = Map.empty\<rparr>"

definition example_config :: config where
  "example_config =
     \<lparr>server = 0, content_path = PStr ''~/.ansible/content'',
      global_content_path = PStr ''/usr/share/ansible/content''\<rparr>"

definition example_state :: state where
  "example_state =
     \<lparr>action = ''info'',
      options = [''content_path'' \<mapsto> PNone, ''offline'' \<mapsto> PBool False],
      args = [], config_file_path = Some ''/home/alice/.ansible/mazer.yml'',
      config = Some example_config, api = None,
      heap = [[(''url'', PStr ''https://galaxy.ansible.com''), (''ignore_certs'', PBool False)]],
      trace = []\<rparr>"

definition install_both :: "string list \<Rightarrow> exn + (string \<times> pyobject \<times> string list)" where
  "install_both argv =
     Inr (''install'',
          [''content_path'' \<mapsto> PStr ''/opt/c'', ''global_install'' \<mapsto> PBool True],
          [''ns.repo''])"

definition ok_handler :: "call \<Rightarrow> exn + pyval" where
  "ok_handler k = Inr (PInt 0)"

definition no_config :: "string \<Rightarrow> exn + (pydict \<times> pyval \<times> pyval)" where
  "no_config p = Inl (OtherError ''no configuration'')"

definition example_collaborators :: collaborators where
  "example_collaborators =
     \<lparr>base_parse = install_both, base_run = None, CONFIG_FILE = ''~/.ansible/mazer.yml'',
      config_load = no_config, cli_version = ''0.4.0'', handler = ok_handler\<rparr>"

subsection \<open>Notions used in the statements\<close>

text \<open>
  The value that becomes the content path, by precedence: the global content path of the
  configuration when the \<^verbatim>\<open>global_install\<close> option is set; otherwise the \<^verbatim>\<open>content_path\<close>
  option when it is set; otherwise the content path of the configuration.
\<close>

definition content_path_source :: "pyobject \<Rightarrow> config \<Rightarrow> pyval" where
  "content_path_source opts cfg =
     (if truthy (getattr_default opts ''global_install'' PNone) then global_content_path cfg
      else if truthy (getattr_default opts ''content_path'' PNone)
           then getattr_default opts ''content_path'' PNone
      else content_path cfg)"

text \<open>
  The dict that results from the two conditional assignments of lines 166-171 to a copy
  \<open>d\<close> of the server dict.
\<close>

definition server_overrides :: "pyobject \<Rightarrow> pydict \<Rightarrow> pydict" where
  "server_overrides opts d =
     (let d1 = (if truthy (getattr_default opts ''server_url'' PNone)
                then AList.update ''url'' (getattr_default opts ''server_url'' PNone) d else d)
      in if truthy (getattr_default opts ''ignore_certs'' PNone)
         then AList.update ''ignore_certs'' (getattr_default opts ''ignore_certs'' PNone) d1
         else d1)"

text \<open>
  Two environments give the same home directories: \<^verbatim>\<open>HOME\<close> and the password database
  agree. The contents of an execution context: the server settings it refers to and its
  content path.
\<close>

definition same_home :: "os_env \<Rightarrow> os_env \<Rightarrow> bool" where
  "same_home os1 os2 =
     (environ os1 ''HOME'' = environ os2 ''HOME'' \<and> pw_dir_uid os1 = pw_dir_uid os2
      \<and> pw_dir_nam os1 = pw_dir_nam os2)"

definition context_value :: "(exn + galaxy_context) \<times> state \<Rightarrow> exn + (pydict option \<times> string)" where
  "context_value r =
     (case r of
        (Inl e, s) \<Rightarrow> Inl e
      | (Inr ctx, s) \<Rightarrow> Inr (deref (heap s) (ctx_server ctx), ctx_content_path ctx))"

text \<open>Further concrete inputs.\<close>

definition options_both :: pyobject where
  "options_both = [''content_path'' \<mapsto> PStr ''/opt/c'', ''global_install'' \<mapsto> PBool True]"

definition options_none :: pyobject where
  "options_none = [''content_path'' \<mapsto> PNone, ''server_url'' \<mapsto> PNone, ''ignore_certs'' \<mapsto> PNone]"

definition options_server :: pyobject where
  "options_server = [''content_path'' \<mapsto> PNone, ''server_url'' \<mapsto> PStr ''http://localhost:8000'', ''ignore_certs'' \<mapsto> PNone]"

definition other_os :: os_env where
  "other_os =
     \<lparr>environ = [''HOME'' \<mapsto> ''/home/bob''], getcwd = ''/work'',
      pw_dir_uid = Some ''/home/bob'', pw_dir_nam = Map.empty\<rparr>"

definition empty_path_config :: config where
  "empty_path_config =
     \<lparr>server = 0, content_path = PStr [],
      global_content_path = PStr ''/usr/share/ansible/content''\<rparr>"

definition secure_state :: state where
  "secure_state = example_state\<lparr>heap := [[(''url'', PStr ''https://galaxy.ansible.com''), (''ignore_certs'', PBool True)]]\<rparr>"

text \<open>
  The raw path of the configuration file, by precedence: the value of \<^verbatim>\<open>MAZER_CONFIG\<close> when
  that variable is set to a value that is not empty; otherwise the value of
  \<^verbatim>\<open>ANSIBLE_GALAXY_CONFIG\<close> when that one is; otherwise the built-in default. A variable
  that is not set, or set to the empty string, is passed over.
\<close>

definition nonempty_env :: "os_env \<Rightarrow> string \<Rightarrow> string option" where
  "nonempty_env os v =
     (case environ os v of None \<Rightarrow> None | Some p \<Rightarrow> if p \<noteq> [] then Some p else None)"

definition chosen_config_path :: "collaborators \<Rightarrow> os_env \<Rightarrow> string" where
  "chosen_config_path c os =
     (case nonempty_env os ''MAZER_CONFIG'' of
        Some p \<Rightarrow> p
      | None \<Rightarrow>
          (case nonempty_env os ''ANSIBLE_GALAXY_CONFIG'' of
             Some q \<Rightarrow> q
           | None \<Rightarrow> CONFIG_FILE c))"

text \<open>Concrete inputs for the dispatch.\<close>

definition failing_handler :: "call \<Rightarrow> exn + pyval" where
  "failing_handler k = Inl (OtherError ''connection reset'')"

definition failing_collaborators :: collaborators where
  "failing_collaborators = example_collaborators\<lparr>handler := failing_handler\<rparr>"

definition list_state :: state where
  "list_state = example_state\<lparr>action := ''list''\<rparr>"

definition install_state :: state where
  "install_state =
     example_state
       \<lparr>action := ''install'',
        options := [''content_path'' \<mapsto> PNone, ''global_install'' \<mapsto> PNone,
                    ''editable_install'' \<mapsto> PNone, ''namespace'' \<mapsto> PNone,
                    ''ignore_errors'' \<mapsto> PBool False, ''no_deps'' \<mapsto> PBool False,
                    ''force'' \<mapsto> PBool False],
        args := [''ns.repo'']\<rparr>"

definition remove_state :: state where
  "remove_state = example_state\<lparr>action := ''remove'', args := [''ns.repo'', ''ns.other'']\<rparr>"

definition legacy_os :: os_env where
  "legacy_os =
     \<lparr>environ = [''HOME'' \<mapsto> ''/home/alice'', ''MAZER_CONFIG'' \<mapsto> [],
                 ''ANSIBLE_GALAXY_CONFIG'' \<mapsto> ''~/galaxy.yml''],
      getcwd = ''/work'', pw_dir_uid = Some ''/home/alice'', pw_dir_nam = Map.empty\<rparr>"

definition relative_os :: os_env where
  "relative_os =
     \<lparr>environ = [''HOME'' \<mapsto> ''/home/alice'', ''MAZER_CONFIG'' \<mapsto> ''conf/../mazer.yml''],
      getcwd = ''/work'', pw_dir_uid = Some ''/home/alice'', pw_dir_nam = Map.empty\<rparr>"

definition empty_legacy_os :: os_env where
  "empty_legacy_os =
     \<lparr>environ = [''HOME'' \<mapsto> ''/home/alice'', ''ANSIBLE_GALAXY_CONFIG'' \<mapsto> []],
      getcwd = ''/work'', pw_dir_uid = Some ''/home/alice'', pw_dir_nam = Map.empty\<rparr>"

text \<open>
  The command line \<^verbatim>\<open>install -C '' -g ns.repo\<close> as the base parser gives it: the content
  path option is set, to the empty string, and the global flag is set.
\<close>

definition install_empty_path :: "string list \<Rightarrow> exn + (string \<times> pyobject \<times> string list)" where
  "install_empty_path argv =
     Inr (''install'',
          [''content_path'' \<mapsto> PStr [], ''global_install'' \<mapsto> PBool True],
          [''ns.repo''])"

definition empty_path_collaborators :: collaborators where
  "empty_path_collaborators = example_collaborators\<lparr>base_parse := install_empty_path\<rparr>"

section \<open>Properties\<close>

subsection \<open>The ignore-errors policy\<close>

text \<open>
  Claim C5. \<^verbatim>\<open>exit_without_ignore\<close>: when \<^verbatim>\<open>ignore_errors\<close> is false it raises
  \<^verbatim>\<open>GalaxyCliError\<close> with a message that ends with the fixed blurb about
  \<^verbatim>\<open>--ignore-errors\<close>; a message that was given is the start of it (a message that is not
  empty is followed by a colon, a newline and the blurb; without a message, or with an empty
  one, the blurb is the whole text). When \<^verbatim>\<open>ignore_errors\<close> is true nothing is raised and the
  function returns; it has no state to change.
\<close>

theorem exit_without_ignore_policy:
  "(\<not> truthy ignore_errors \<longrightarrow>
      (\<exists>message. exit_without_ignore ignore_errors msg rc = Inl (GalaxyCliError message)
         \<and> suffix ignore_error_blurb message
         \<and> (\<forall>m. msg = Some m \<longrightarrow> prefix m message)
         \<and> (\<forall>m. msg = Some m \<and> m \<noteq> [] \<longrightarrow>
                message = m @ '':'' @ [CHR 0x0A] @ ignore_error_blurb)
         \<and> (msg = None \<or> msg = Some [] \<longrightarrow> message = ignore_error_blurb)))
   \<and> (truthy ignore_errors \<longrightarrow> exit_without_ignore ignore_errors msg rc = Inr ())"
proof (cases msg)
  case None
  then show ?thesis by (simp add: exit_without_ignore_def)
next
  case (Some m)
  have "suffix ignore_error_blurb (m @ '':'' @ [CHR 0x0A] @ ignore_error_blurb)"
    by (intro suffixI[of _ "m @ '':'' @ [CHR 0x0A]"]) simp
  with Some show ?thesis by (simp add: exit_without_ignore_def)
qed

theorem exit_without_ignore_policy_witness:
  "exit_without_ignore (PBool False) (Some ''download failed'') 1 =
     Inl (GalaxyCliError (''download failed'' @ '':'' @ [CHR 0x0A] @ ignore_error_blurb))
   \<and> exit_without_ignore (PBool True) (Some ''download failed'') 1 = Inr ()"
  using exit_without_ignore_policy [of "PBool False" "Some ''download failed''" 1]
        exit_without_ignore_policy [of "PBool True" "Some ''download failed''" 1]
  by auto

subsection \<open>Validation before dispatch\<close>

text \<open>
  Claim C4. \<^verbatim>\<open>info\<close> and \<^verbatim>\<open>remove\<close> with an empty list of positional arguments raise
  \<^verbatim>\<open>CliOptionsError\<close>, also when they are reached through the dispatch on the action
  name, and the state is the one before the call: nothing was added to the record of
  effects, so no handler was called.
\<close>

theorem info_remove_need_arguments:
  "args s = [] \<Longrightarrow>
     execute_info c os s = (Inl (CliOptionsError ''- you must specify a user/role name''), s)
   \<and> execute_remove c os s =
       (Inl (CliOptionsError ''- you must specify at least one role to remove.''), s)
   \<and> (action s = ''info'' \<longrightarrow> execute c os s = execute_info c os s)
   \<and> (action s = ''remove'' \<longrightarrow> execute c os s = execute_remove c os s)"
  by (simp add: execute_info_def execute_remove_def execute_def)

theorem info_remove_need_arguments_witness:
  "args example_state = []
   \<and> execute example_collaborators example_os example_state =
       (Inl (CliOptionsError ''- you must specify a user/role name''), example_state)
   \<and> execute_remove example_collaborators example_os example_state =
       (Inl (CliOptionsError ''- you must specify at least one role to remove.''), example_state)"
proof -
  have a: "args example_state = []" and b: "action example_state = ''info''"
    by (simp_all add: example_state_def)
  show ?thesis
    using info_remove_need_arguments [OF a, of example_collaborators example_os] a b by simp
qed

text \<open>
  Claim C2, as stated, fails: for \<^verbatim>\<open>install -C '' -g\<close> both options are set, the content
  path to the empty string, and \<^verbatim>\<open>parse\<close> returns without raising.
\<close>

theorem parse_accepts_empty_content_path_counterexample:
  "action (snd (parse empty_path_collaborators example_state)) = ''install''
   \<and> options (snd (parse empty_path_collaborators example_state)) ''content_path'' =
       Some (PStr [])
   \<and> options (snd (parse empty_path_collaborators example_state)) ''global_install'' =
       Some (PBool True)
   \<and> fst (parse empty_path_collaborators example_state) = Inr ()"
  by (simp add: parse_def getattr_def empty_path_collaborators_def install_empty_path_def)

text \<open>
  Claim C2, amended. When the base parser gives the action \<^verbatim>\<open>install\<close> and options in
  which both \<^verbatim>\<open>content_path\<close> and \<^verbatim>\<open>global_install\<close> have a true value (a content path that
  is not empty, and the flag), \<^verbatim>\<open>parse\<close> raises \<^verbatim>\<open>CliOptionsError\<close>. At that point the
  record of effects, the store and the \<^verbatim>\<open>api\<close> and \<^verbatim>\<open>config\<close> attributes are as before the
  call: no execution context and no API object has been constructed, and no handler has
  been called. When one of the two has a false value (\<^verbatim>\<open>None\<close>, or the empty string given
  as the content path), \<^verbatim>\<open>parse\<close> returns without raising.
\<close>

theorem parse_rejects_content_path_with_global:
  assumes "base_parse c (args s) = Inr (''install'', opts, rest)"
    and "opts ''content_path'' = Some cp"
    and "opts ''global_install'' = Some gi"
  shows "(truthy cp \<and> truthy gi \<longrightarrow>
            parse c s =
              (Inl (CliOptionsError ''--content-path and --global are mutually exclusive''),
               s\<lparr>action := ''install'', options := opts, args := rest\<rparr>)
            \<and> trace (snd (parse c s)) = trace s
            \<and> heap (snd (parse c s)) = heap s
            \<and> api (snd (parse c s)) = api s
            \<and> config (snd (parse c s)) = config s)
       \<and> (\<not> (truthy cp \<and> truthy gi) \<longrightarrow>
            parse c s = (Inr (), s\<lparr>action := ''install'', options := opts, args := rest\<rparr>))"
  using assms by (auto simp: parse_def getattr_def Let_def)

theorem parse_rejects_content_path_with_global_witness:
  "truthy (PStr ''/opt/c'') \<and> truthy (PBool True)
   \<and> fst (parse example_collaborators example_state) =
       Inl (CliOptionsError ''--content-path and --global are mutually exclusive'')
   \<and> trace (snd (parse example_collaborators example_state)) = trace example_state"
proof -
  have a: "base_parse example_collaborators (args example_state) =
             Inr (''install'',
                  [''content_path'' \<mapsto> PStr ''/opt/c'', ''global_install'' \<mapsto> PBool True],
                  [''ns.repo''])"
    by (simp add: example_collaborators_def install_both_def)
  have b: "[''content_path'' \<mapsto> PStr ''/opt/c'', ''global_install'' \<mapsto> PBool True]
             ''content_path'' = Some (PStr ''/opt/c'')" by simp
  have d: "[''content_path'' \<mapsto> PStr ''/opt/c'', ''global_install'' \<mapsto> PBool True]
             ''global_install'' = Some (PBool True)" by simp
  show ?thesis
    using parse_rejects_content_path_with_global [OF a b d] by simp
qed

subsection \<open>The execution context\<close>

lemma raw_content_path_source: "raw_content_path opts cfg = content_path_source opts cfg"
  by (auto simp: raw_content_path_def content_path_source_def hasattr_def getattr_default_def
        py_or_def Let_def split: option.splits)

lemma get_galaxy_context_raises:
  "py_expanduser os (raw_content_path opts cfg) = Inl e \<Longrightarrow>
   get_galaxy_context os opts cfg s = (Inl e, s)"
  by (simp add: get_galaxy_context_def)

lemma get_galaxy_context_no_server:
  "py_expanduser os (raw_content_path opts cfg) = Inr p \<Longrightarrow> \<not> server cfg < length (heap s) \<Longrightarrow>
   get_galaxy_context os opts cfg s = (Inl (AttributeError ''copy''), s)"
  by (simp add: get_galaxy_context_def deref_def)

lemma get_galaxy_context_returns:
  assumes "raw_content_path opts cfg = PStr p" and "server cfg < length (heap s)"
  shows "get_galaxy_context os opts cfg s =
           (Inr (GalaxyContext (length (heap s)) (expanduser os p)),
            s\<lparr>heap := heap s @ [server_overrides opts (heap s ! server cfg)],
              trace := trace s @ [NewContext (GalaxyContext (length (heap s)) (expanduser os p))]\<rparr>)"
  using assms
  by (simp add: get_galaxy_context_def py_expanduser_def deref_def alloc_def setitem_def
        server_overrides_def Let_def)

lemma get_galaxy_context_cases:
  assumes "get_galaxy_context os opts cfg s = (r, s')"
  shows "(s' = s \<and> (\<exists>e. r = Inl e))
   \<or> (\<exists>ctx h. r = Inr ctx \<and> s' = s\<lparr>heap := h, trace := trace s @ [NewContext ctx]\<rparr>)"
proof (cases "py_expanduser os (raw_content_path opts cfg)")
  case (Inl e)
  with assms show ?thesis by (auto simp: get_galaxy_context_raises)
next
  case (Inr p)
  show ?thesis
  proof (cases "server cfg < length (heap s)")
    case False
    with Inr assms show ?thesis by (auto simp: get_galaxy_context_no_server)
  next
    case True
    from Inr obtain q where "raw_content_path opts cfg = PStr q"
      by (auto simp: py_expanduser_def split: pyval.splits)
    from get_galaxy_context_returns [OF this True, of os] assms show ?thesis by auto
  qed
qed

text \<open>
  Claim C1, as stated, fails: with both the \<^verbatim>\<open>content_path\<close> option and the
  \<^verbatim>\<open>global_install\<close> option set, the content path of the context is the global content path
  of the configuration, not the option.
\<close>

theorem content_path_precedence_counterexample:
  "options_both ''content_path'' = Some (PStr ''/opt/c'')
   \<and> map_sum id ctx_content_path
         (fst (get_galaxy_context example_os options_both example_config example_state)) =
       Inr ''/usr/share/ansible/content''"
  by (simp add: get_galaxy_context_def raw_content_path_def py_expanduser_def expanduser_def
        hasattr_def getattr_default_def py_or_def deref_def alloc_def setitem_def
        options_both_def example_config_def example_state_def Let_def)

text \<open>
  Claim C1, amended. The content path of the context is the home expansion
  (\<^verbatim>\<open>os.path.expanduser\<close>) of: the global content path of the configuration when the
  \<^verbatim>\<open>global_install\<close> option is set; otherwise the \<^verbatim>\<open>content_path\<close> option when it is set
  (present and not empty); otherwise the content path of the configuration. The override by
  \<^verbatim>\<open>global_install\<close> wins over the option. When that value is not a string the expansion
  raises \<^verbatim>\<open>TypeError\<close>.
\<close>

theorem content_path_precedence:
  "(server cfg < length (heap s) \<longrightarrow>
      map_sum id ctx_content_path (fst (get_galaxy_context os opts cfg s)) =
        (case content_path_source opts cfg of
           PStr p \<Rightarrow> Inr (expanduser os p)
         | _ \<Rightarrow> Inl TypeError))
   \<and> (\<forall>ctx. fst (get_galaxy_context os opts cfg s) = Inr ctx \<longrightarrow>
          (\<exists>p. content_path_source opts cfg = PStr p
             \<and> ctx_content_path ctx = expanduser os p))"
proof (cases "content_path_source opts cfg")
  case (PStr q)
  then have raw: "raw_content_path opts cfg = PStr q"
    by (simp add: raw_content_path_source)
  show ?thesis
  proof (cases "server cfg < length (heap s)")
    case True
    from get_galaxy_context_returns [OF raw True, of os] PStr show ?thesis by simp
  next
    case False
    with raw show ?thesis
      by (simp add: get_galaxy_context_no_server py_expanduser_def)
  qed
qed (simp_all add: get_galaxy_context_raises raw_content_path_source py_expanduser_def)

theorem content_path_precedence_witness:
  "server example_config < length (heap example_state)
   \<and> map_sum id ctx_content_path
        (fst (get_galaxy_context example_os options_none example_config example_state)) =
       Inr ''/home/alice/.ansible/content''"
proof -
  have a: "server example_config < length (heap example_state)"
    by (simp add: example_config_def example_state_def)
  have b: "content_path_source options_none example_config = PStr ''~/.ansible/content''"
    by (simp add: content_path_source_def options_none_def getattr_default_def
          example_config_def)
  have c: "expanduser example_os ''~/.ansible/content'' = ''/home/alice/.ansible/content''"
    by (simp add: expanduser_def userhome_def expand_with_def rstrip_sep_def sep_def
          example_os_def Let_def)
  from content_path_precedence [of example_config example_state example_os options_none]
    a b c show ?thesis by simp
qed

lemma expanduser_no_tilde: "take 1 p \<noteq> ''~'' \<Longrightarrow> expanduser os p = p"
  by (simp add: expanduser_def)

lemma userhome_same_home: "same_home os1 os2 \<Longrightarrow> userhome os1 n = userhome os2 n"
  by (simp add: userhome_def same_home_def split: option.splits)

lemma expanduser_same_home: "same_home os1 os2 \<Longrightarrow> expanduser os1 p = expanduser os2 p"
  by (simp add: expanduser_def userhome_same_home [of os1 os2])

text \<open>
  Claim C8, as stated, fails: with no \<^verbatim>\<open>content_path\<close> option, \<^verbatim>\<open>global_install\<close> not set and
  the empty string as the content path of the configuration, the builder returns a context
  whose content path is empty.
\<close>

theorem unresolvable_content_path_counterexample:
  "raw_content_path options_none empty_path_config = PStr []
   \<and> fst (get_galaxy_context example_os options_none empty_path_config example_state) =
       Inr (GalaxyContext 1 [])"
  by (simp add: get_galaxy_context_def raw_content_path_def py_expanduser_def expanduser_def
        hasattr_def getattr_default_def py_or_def deref_def alloc_def setitem_def
        options_none_def empty_path_config_def example_state_def Let_def)

text \<open>
  Claim C8, amended. With no usable \<^verbatim>\<open>content_path\<close> option and \<^verbatim>\<open>global_install\<close> not
  set: when the content path of the configuration is \<^verbatim>\<open>None\<close>, building the context raises
  (\<^verbatim>\<open>TypeError\<close>, from the home expansion) and leaves the state as it was; when it is the
  empty string, building the context returns a context with the empty content path.
\<close>

theorem unresolvable_content_path:
  assumes "\<not> truthy (getattr_default opts ''content_path'' PNone)"
    and "\<not> truthy (getattr_default opts ''global_install'' PNone)"
  shows "(content_path cfg = PNone \<longrightarrow>
            get_galaxy_context os opts cfg s = (Inl TypeError, s))
       \<and> (content_path cfg = PStr [] \<and> server cfg < length (heap s) \<longrightarrow>
            fst (get_galaxy_context os opts cfg s) = Inr (GalaxyContext (length (heap s)) []))"
proof -
  from assms have raw: "raw_content_path opts cfg = content_path cfg"
    by (simp add: raw_content_path_def py_or_def Let_def)
  show ?thesis
  proof (intro conjI impI)
    assume "content_path cfg = PNone"
    with raw show "get_galaxy_context os opts cfg s = (Inl TypeError, s)"
      by (simp add: get_galaxy_context_raises py_expanduser_def)
  next
    assume a: "content_path cfg = PStr [] \<and> server cfg < length (heap s)"
    with raw have "raw_content_path opts cfg = PStr []" by simp
    from get_galaxy_context_returns [OF this, of s os] a
    show "fst (get_galaxy_context os opts cfg s) = Inr (GalaxyContext (length (heap s)) [])"
      by (simp add: expanduser_def)
  qed
qed

theorem unresolvable_content_path_witness:
  "get_galaxy_context example_os options_none (example_config\<lparr>content_path := PNone\<rparr>)
     example_state = (Inl TypeError, example_state)
   \<and> fst (get_galaxy_context example_os options_none (example_config\<lparr>content_path := PStr []\<rparr>)
          example_state) = Inr (GalaxyContext 1 [])"
proof -
  have a: "\<not> truthy (getattr_default options_none ''content_path'' PNone)"
    and b: "\<not> truthy (getattr_default options_none ''global_install'' PNone)"
    by (simp_all add: options_none_def getattr_default_def)
  show ?thesis
    using unresolvable_content_path [OF a b, where cfg = "example_config\<lparr>content_path := PNone\<rparr>"
            and os = example_os and s = example_state]
          unresolvable_content_path [OF a b, where cfg = "example_config\<lparr>content_path := PStr []\<rparr>"
            and os = example_os and s = example_state]
    by (simp add: example_config_def example_state_def)
qed

text \<open>
  Claim C9, as stated, fails: the same options, configuration and state give different
  contexts in two environments that differ in \<^verbatim>\<open>HOME\<close>.
\<close>

theorem context_depends_on_home_counterexample:
  "fst (get_galaxy_context example_os options_none example_config example_state) =
     Inr (GalaxyContext 1 ''/home/alice/.ansible/content'')
   \<and> fst (get_galaxy_context other_os options_none example_config example_state) =
       Inr (GalaxyContext 1 ''/home/bob/.ansible/content'')
   \<and> context_value (get_galaxy_context example_os options_none example_config example_state)
       \<noteq> context_value (get_galaxy_context other_os options_none example_config example_state)"
  by (simp add: get_galaxy_context_def raw_content_path_def py_expanduser_def expanduser_def
        userhome_def expand_with_def rstrip_sep_def sep_def context_value_def
        hasattr_def getattr_default_def py_or_def deref_def alloc_def setitem_def
        options_none_def example_config_def example_state_def example_os_def other_os_def Let_def)

text \<open>
  Claim C9, amended. The outcome of the builder (the exception, or the contents of the
  context) is determined by the options, the contents of the configuration document and the
  home directories of the environment: two runs with equal options and equal configuration
  contents agree when their environments agree on \<^verbatim>\<open>HOME\<close> and the password database, or
  when the path to expand does not start with \<^verbatim>\<open>~\<close>. Nothing else of the state or the
  environment matters.
\<close>

theorem context_determined_by_inputs_and_home:
  assumes "content_path cfg1 = content_path cfg2"
    and "global_content_path cfg1 = global_content_path cfg2"
    and "deref (heap s1) (server cfg1) = deref (heap s2) (server cfg2)"
    and "same_home os1 os2 \<or> (\<forall>p. raw_content_path opts cfg1 = PStr p \<longrightarrow> take 1 p \<noteq> ''~'')"
  shows "context_value (get_galaxy_context os1 opts cfg1 s1) =
         context_value (get_galaxy_context os2 opts cfg2 s2)"
proof -
  from assms(1,2) have raw: "raw_content_path opts cfg2 = raw_content_path opts cfg1"
    by (simp add: raw_content_path_def)
  show ?thesis
  proof (cases "raw_content_path opts cfg1")
    case (PStr p)
    from assms(4) PStr have e: "expanduser os1 p = expanduser os2 p"
      by (auto simp: expanduser_no_tilde expanduser_same_home)
    show ?thesis
    proof (cases "server cfg1 < length (heap s1)")
      case True
      with assms(3) have v2: "server cfg2 < length (heap s2)"
        and d: "heap s2 ! server cfg2 = heap s1 ! server cfg1"
        by (auto simp: deref_def split: if_splits)
      from PStr raw have r2: "raw_content_path opts cfg2 = PStr p" by simp
      show ?thesis
        using get_galaxy_context_returns [OF PStr True, of os1]
              get_galaxy_context_returns [OF r2 v2, of os2] e d
        by (simp add: context_value_def deref_def)
    next
      case False
      with assms(3) have v2: "\<not> server cfg2 < length (heap s2)"
        by (auto simp: deref_def split: if_splits)
      from PStr raw False v2 show ?thesis
        by (simp add: get_galaxy_context_no_server py_expanduser_def context_value_def)
    qed
  qed (simp_all add: raw get_galaxy_context_raises py_expanduser_def context_value_def)
qed

theorem context_determined_by_inputs_and_home_witness:
  "same_home example_os (example_os\<lparr>getcwd := ''/tmp''\<rparr>)
   \<and> context_value (get_galaxy_context example_os options_none example_config example_state) =
       context_value (get_galaxy_context (example_os\<lparr>getcwd := ''/tmp''\<rparr>) options_none
         example_config (example_state\<lparr>trace := [LogInfo ''x'' ''MAZER_CONFIG'']\<rparr>))"
proof -
  have a: "same_home example_os (example_os\<lparr>getcwd := ''/tmp''\<rparr>)"
    by (simp add: same_home_def)
  have b: "deref (heap example_state) (server example_config) =
           deref (heap (example_state\<lparr>trace := [LogInfo ''x'' ''MAZER_CONFIG'']\<rparr>))
             (server example_config)" by simp
  show ?thesis
    using context_determined_by_inputs_and_home [OF refl refl b disjI1 [OF a], of options_none] a
    by simp
qed

lemma server_overrides_url:
  "map_of (server_overrides opts d) ''url'' =
     (if truthy (getattr_default opts ''server_url'' PNone)
      then Some (getattr_default opts ''server_url'' PNone) else map_of d ''url'')"
  by (simp add: server_overrides_def Let_def update_conv')

lemma server_overrides_ignore_certs:
  "map_of (server_overrides opts d) ''ignore_certs'' =
     (if truthy (getattr_default opts ''ignore_certs'' PNone)
      then Some (getattr_default opts ''ignore_certs'' PNone) else map_of d ''ignore_certs'')"
  by (simp add: server_overrides_def Let_def update_conv')

lemma server_overrides_other:
  "k \<noteq> ''url'' \<Longrightarrow> k \<noteq> ''ignore_certs'' \<Longrightarrow> map_of (server_overrides opts d) k = map_of d k"
  by (simp add: server_overrides_def Let_def update_conv')

text \<open>
  Claim C10. In the context that the builder returns, the server settings are a new dict
  object (its address is not one of the store before the call) in which \<^verbatim>\<open>url\<close> is the
  \<^verbatim>\<open>server_url\<close> option when that is set and the configured value otherwise,
  \<^verbatim>\<open>ignore_certs\<close> is the \<^verbatim>\<open>ignore_certs\<close> option when that is true and the configured value
  otherwise, and every other key is as configured; hence a configured \<^verbatim>\<open>ignore_certs\<close>
  that is true stays true whatever the options are. Every object that was in the store
  before the call, the server dict of the configuration among them, is unchanged after it,
  whether the builder returns or raises.
\<close>

theorem server_overrides_on_a_copy:
  assumes "get_galaxy_context os opts cfg s = (r, s')"
  shows "(\<forall>a<length (heap s). deref (heap s') a = deref (heap s) a)
       \<and> config s' = config s
       \<and> (\<forall>ctx. r = Inr ctx \<longrightarrow>
            ctx_server ctx = length (heap s) \<and>
            (\<exists>d d'. deref (heap s) (server cfg) = Some d
               \<and> deref (heap s') (ctx_server ctx) = Some d'
               \<and> map_of d' ''url'' =
                   (if truthy (getattr_default opts ''server_url'' PNone)
                    then Some (getattr_default opts ''server_url'' PNone)
                    else map_of d ''url'')
               \<and> map_of d' ''ignore_certs'' =
                   (if truthy (getattr_default opts ''ignore_certs'' PNone)
                    then Some (getattr_default opts ''ignore_certs'' PNone)
                    else map_of d ''ignore_certs'')
               \<and> (\<forall>k. k \<noteq> ''url'' \<and> k \<noteq> ''ignore_certs'' \<longrightarrow> map_of d' k = map_of d k)
               \<and> ((\<exists>v. map_of d ''ignore_certs'' = Some v \<and> truthy v) \<longrightarrow>
                    (\<exists>v. map_of d' ''ignore_certs'' = Some v \<and> truthy v))))"
proof (cases "py_expanduser os (raw_content_path opts cfg)")
  case (Inl e)
  with assms show ?thesis by (auto simp: get_galaxy_context_raises)
next
  case (Inr p)
  show ?thesis
  proof (cases "server cfg < length (heap s)")
    case False
    with Inr assms show ?thesis by (auto simp: get_galaxy_context_no_server)
  next
    case True
    from Inr obtain q where "raw_content_path opts cfg = PStr q"
      by (auto simp: py_expanduser_def split: pyval.splits)
    from get_galaxy_context_returns [OF this True, of os] assms
    have r: "r = Inr (GalaxyContext (length (heap s)) (expanduser os q))"
      and s': "heap s' = heap s @ [server_overrides opts (heap s ! server cfg)]"
      and c: "config s' = config s"
      by auto
    have old: "\<forall>a<length (heap s). deref (heap s') a = deref (heap s) a"
      by (simp add: s' deref_def nth_append)
    have new: "deref (heap s') (length (heap s)) =
                 Some (server_overrides opts (heap s ! server cfg))"
      by (simp add: s' deref_def)
    have d: "deref (heap s) (server cfg) = Some (heap s ! server cfg)"
      using True by (simp add: deref_def)
    show ?thesis
      using old c r new d
      by (auto simp: server_overrides_url server_overrides_ignore_certs server_overrides_other)
  qed
qed

theorem server_overrides_on_a_copy_witness:
  "deref (heap (snd (get_galaxy_context example_os options_server example_config secure_state))) 0 =
     deref (heap secure_state) 0
   \<and> (\<exists>d'. deref (heap (snd (get_galaxy_context example_os options_server example_config
                         secure_state))) 1 = Some d'
          \<and> map_of d' ''url'' = Some (PStr ''http://localhost:8000'')
          \<and> map_of d' ''ignore_certs'' = Some (PBool True))"
proof -
  have ret: "get_galaxy_context example_os options_server example_config secure_state =
        (Inr (GalaxyContext 1 ''/home/alice/.ansible/content''),
         snd (get_galaxy_context example_os options_server example_config secure_state))"
    by (simp add: get_galaxy_context_def raw_content_path_def py_expanduser_def expanduser_def
        userhome_def expand_with_def rstrip_sep_def sep_def
        hasattr_def getattr_default_def py_or_def deref_def alloc_def setitem_def
        options_server_def example_config_def example_state_def secure_state_def
        example_os_def Let_def)
  have h: "heap secure_state =
             [[(''url'', PStr ''https://galaxy.ansible.com''), (''ignore_certs'', PBool True)]]"
    by (simp add: secure_state_def)
  have su: "getattr_default options_server ''server_url'' PNone = PStr ''http://localhost:8000''"
    and ic: "getattr_default options_server ''ignore_certs'' PNone = PNone"
    by (simp_all add: getattr_default_def options_server_def)
  have srv: "server example_config = 0" by (simp add: example_config_def)
  let ?s' = "snd (get_galaxy_context example_os options_server example_config secure_state)"
  note t = server_overrides_on_a_copy [OF ret]
  from t have old: "\<forall>a<length (heap secure_state). deref (heap ?s') a = deref (heap secure_state) a"
    by (rule conjunct1)
  from t have "\<exists>d d'. deref (heap secure_state) (server example_config) = Some d
               \<and> deref (heap ?s') (ctx_server (GalaxyContext 1 ''/home/alice/.ansible/content'')) = Some d'
               \<and> map_of d' ''url'' =
                   (if truthy (getattr_default options_server ''server_url'' PNone)
                    then Some (getattr_default options_server ''server_url'' PNone)
                    else map_of d ''url'')
               \<and> map_of d' ''ignore_certs'' =
                   (if truthy (getattr_default options_server ''ignore_certs'' PNone)
                    then Some (getattr_default options_server ''ignore_certs'' PNone)
                    else map_of d ''ignore_certs'')
               \<and> (\<forall>k. k \<noteq> ''url'' \<and> k \<noteq> ''ignore_certs'' \<longrightarrow> map_of d' k = map_of d k)
               \<and> ((\<exists>v. map_of d ''ignore_certs'' = Some v \<and> truthy v) \<longrightarrow>
                    (\<exists>v. map_of d' ''ignore_certs'' = Some v \<and> truthy v))"
    by blast
  then obtain d d' where
    d: "deref (heap secure_state) (server example_config) = Some d"
    and d': "deref (heap ?s') (ctx_server (GalaxyContext 1 ''/home/alice/.ansible/content'')) = Some d'"
    and url: "map_of d' ''url'' =
                   (if truthy (getattr_default options_server ''server_url'' PNone)
                    then Some (getattr_default options_server ''server_url'' PNone)
                    else map_of d ''url'')"
    and certs: "map_of d' ''ignore_certs'' =
                   (if truthy (getattr_default options_server ''ignore_certs'' PNone)
                    then Some (getattr_default options_server ''ignore_certs'' PNone)
                    else map_of d ''ignore_certs'')"
    by blast
  from d have dv: "d = [(''url'', PStr ''https://galaxy.ansible.com''), (''ignore_certs'', PBool True)]"
    by (simp add: h srv deref_def)
  from old have "deref (heap ?s') 0 = deref (heap secure_state) 0"
    by (simp add: h)
  moreover from d' have "deref (heap ?s') 1 = Some d'" by simp
  moreover from url have "map_of d' ''url'' = Some (PStr ''http://localhost:8000'')"
    by (simp add: su)
  moreover from certs have "map_of d' ''ignore_certs'' = Some (PBool True)"
    by (simp add: ic dv)
  ultimately show ?thesis by blast
qed

subsection \<open>Dispatch to the handlers\<close>

lemma example_expanduser:
  "expanduser example_os ''~/.ansible/content'' = ''/home/alice/.ansible/content''"
  by (simp add: expanduser_def userhome_def expand_with_def rstrip_sep_def sep_def
        example_os_def Let_def)

lemma calls_append: "calls (xs @ ys) = calls xs @ calls ys"
  by (induction xs) (simp_all split: event.splits)

lemma loads_append: "loads (xs @ ys) = loads xs @ loads ys"
  by (induction xs) (simp_all split: event.splits)

lemma logged_append: "logged (xs @ ys) = logged xs @ logged ys"
  by (induction xs) (simp_all split: event.splits)

lemma get_galaxy_context_frame:
  assumes "get_galaxy_context os opts cfg s = (r, s')"
  shows "calls (trace s') = calls (trace s) \<and> loads (trace s') = loads (trace s)
       \<and> logged (trace s') = logged (trace s)
       \<and> config_file_path s' = config_file_path s"
  using get_galaxy_context_cases [OF assms]
  by (auto simp: calls_append loads_append logged_append)

lemma invoke_frame:
  "loads (trace (snd (invoke c k s))) = loads (trace s)
   \<and> config_file_path (snd (invoke c k s)) = config_file_path s
   \<and> calls (trace (snd (invoke c k s))) = calls (trace s) @ [k]"
  by (simp add: invoke_def loads_append calls_append)

text \<open>
  Claim C6. Once the execution context is built, \<^verbatim>\<open>remove\<close> (whose arguments are not empty
  after the check at its start) calls its handler with \<^verbatim>\<open>MatchLabels(args)\<close>, and \<^verbatim>\<open>list\<close>
  calls its handler with \<^verbatim>\<open>MatchAll\<close> when there are no positional arguments and with
  \<^verbatim>\<open>MatchNamespacesOrLabels(args)\<close> when there are. In every run each of the two methods
  makes no handler call or exactly this one.
\<close>

theorem match_filter_construction:
  "(\<forall>cfg ctx s1.
      config s = Some cfg \<and> get_galaxy_context os (options s) cfg s = (Inr ctx, s1) \<longrightarrow>
        (args s \<noteq> [] \<longrightarrow>
           execute_remove c os s =
             (handler c (Remove ctx (MatchLabels (args s))),
              s1\<lparr>trace := trace s1 @ [Called (Remove ctx (MatchLabels (args s)))]\<rparr>))
      \<and> (args s = [] \<longrightarrow>
           execute_list c os s =
             (handler c (List_action ctx MatchAll),
              s1\<lparr>trace := trace s1 @ [Called (List_action ctx MatchAll)]\<rparr>))
      \<and> (args s \<noteq> [] \<longrightarrow>
           execute_list c os s =
             (handler c (List_action ctx (MatchNamespacesOrLabels (args s))),
              s1\<lparr>trace := trace s1 @
                 [Called (List_action ctx (MatchNamespacesOrLabels (args s)))]\<rparr>)))
   \<and> (calls (trace (snd (execute_remove c os s))) = calls (trace s)
      \<or> args s \<noteq> [] \<and>
        (\<exists>ctx. calls (trace (snd (execute_remove c os s))) =
                 calls (trace s) @ [Remove ctx (MatchLabels (args s))]))
   \<and> (calls (trace (snd (execute_list c os s))) = calls (trace s)
      \<or> (\<exists>ctx. calls (trace (snd (execute_list c os s))) =
                 calls (trace s) @
                 [List_action ctx
                    (if args s = [] then MatchAll else MatchNamespacesOrLabels (args s))]))"
proof (intro conjI allI impI)
  fix cfg ctx s1
  assume a: "config s = Some cfg \<and> get_galaxy_context os (options s) cfg s = (Inr ctx, s1)"
  { assume "args s \<noteq> []"
    with a show "execute_remove c os s =
             (handler c (Remove ctx (MatchLabels (args s))),
              s1\<lparr>trace := trace s1 @ [Called (Remove ctx (MatchLabels (args s)))]\<rparr>)"
      by (simp add: execute_remove_def self_config_def invoke_def Let_def) }
  { assume "args s = []"
    with a show "execute_list c os s =
             (handler c (List_action ctx MatchAll),
              s1\<lparr>trace := trace s1 @ [Called (List_action ctx MatchAll)]\<rparr>)"
      by (simp add: execute_list_def self_config_def invoke_def Let_def) }
  { assume "args s \<noteq> []"
    with a show "execute_list c os s =
             (handler c (List_action ctx (MatchNamespacesOrLabels (args s))),
              s1\<lparr>trace := trace s1 @
                 [Called (List_action ctx (MatchNamespacesOrLabels (args s)))]\<rparr>)"
      by (simp add: execute_list_def self_config_def invoke_def Let_def) }
next
  show "calls (trace (snd (execute_remove c os s))) = calls (trace s)
      \<or> args s \<noteq> [] \<and>
        (\<exists>ctx. calls (trace (snd (execute_remove c os s))) =
                 calls (trace s) @ [Remove ctx (MatchLabels (args s))])"
  proof (cases "config s")
    case None
    then show ?thesis by (simp add: execute_remove_def self_config_def)
  next
    case (Some cfg)
    obtain r s1 where g: "get_galaxy_context os (options s) cfg s = (r, s1)"
      by (cases "get_galaxy_context os (options s) cfg s")
    from get_galaxy_context_frame [OF g] have f: "calls (trace s1) = calls (trace s)" by simp
    show ?thesis
    proof (cases r)
      case (Inl e)
      with Some g f show ?thesis by (simp add: execute_remove_def self_config_def)
    next
      case (Inr ctx)
      with Some g f show ?thesis
        by (auto simp: execute_remove_def self_config_def invoke_def calls_append Let_def)
    qed
  qed
next
  show "calls (trace (snd (execute_list c os s))) = calls (trace s)
      \<or> (\<exists>ctx. calls (trace (snd (execute_list c os s))) =
                 calls (trace s) @
                 [List_action ctx
                    (if args s = [] then MatchAll else MatchNamespacesOrLabels (args s))])"
  proof (cases "config s")
    case None
    then show ?thesis by (simp add: execute_list_def self_config_def)
  next
    case (Some cfg)
    obtain r s1 where g: "get_galaxy_context os (options s) cfg s = (r, s1)"
      by (cases "get_galaxy_context os (options s) cfg s")
    from get_galaxy_context_frame [OF g] have f: "calls (trace s1) = calls (trace s)" by simp
    show ?thesis
    proof (cases r)
      case (Inl e)
      with Some g f show ?thesis by (simp add: execute_list_def self_config_def)
    next
      case (Inr ctx)
      with Some g f show ?thesis
        by (auto simp: execute_list_def self_config_def invoke_def calls_append Let_def)
    qed
  qed
qed


theorem match_filter_construction_witness:
  "calls (trace (snd (execute_remove example_collaborators example_os remove_state))) =
     [Remove (GalaxyContext 1 ''/home/alice/.ansible/content'')
        (MatchLabels [''ns.repo'', ''ns.other''])]"
proof -
  have raw: "raw_content_path (options remove_state) example_config = PStr ''~/.ansible/content''"
    by (simp add: raw_content_path_def hasattr_def getattr_default_def py_or_def
          remove_state_def example_state_def example_config_def)
  have v: "server example_config < length (heap remove_state)"
    by (simp add: remove_state_def example_state_def example_config_def)
  note g = get_galaxy_context_returns [OF raw v, of example_os, unfolded example_expanduser]
  have c: "config remove_state = Some example_config"
    by (simp add: remove_state_def example_state_def)
  have a: "args remove_state = [''ns.repo'', ''ns.other'']"
    by (simp add: remove_state_def)
  have l: "length (heap remove_state) = 1" and t: "trace remove_state = []"
    by (simp_all add: remove_state_def example_state_def)
  from match_filter_construction [of remove_state example_os example_collaborators]
  have "\<forall>cfg ctx s1.
      config remove_state = Some cfg
      \<and> get_galaxy_context example_os (options remove_state) cfg remove_state = (Inr ctx, s1) \<longrightarrow>
        (args remove_state \<noteq> [] \<longrightarrow>
           execute_remove example_collaborators example_os remove_state =
             (handler example_collaborators (Remove ctx (MatchLabels (args remove_state))),
              s1\<lparr>trace := trace s1 @ [Called (Remove ctx (MatchLabels (args remove_state)))]\<rparr>))"
    by blast
  from this c g a show ?thesis
    by (simp add: l t)
qed

text \<open>
  Claim C7, as stated, fails: when the handler of \<^verbatim>\<open>list\<close> raises an unexpected exception,
  the exception reaches the caller, and the dispatcher has written no log record.
\<close>

theorem handler_exception_not_logged_counterexample:
  "fst (execute_list failing_collaborators example_os list_state) =
     Inl (OtherError ''connection reset'')
   \<and> calls (trace (snd (execute_list failing_collaborators example_os list_state))) =
       [List_action (GalaxyContext 1 ''/home/alice/.ansible/content'') MatchAll]
   \<and> logged (trace (snd (execute_list failing_collaborators example_os list_state))) = []"
proof -
  have raw: "raw_content_path (options list_state) example_config = PStr ''~/.ansible/content''"
    by (simp add: raw_content_path_def hasattr_def getattr_default_def py_or_def
          list_state_def example_state_def example_config_def)
  have v: "server example_config < length (heap list_state)"
    by (simp add: list_state_def example_state_def example_config_def)
  note g = get_galaxy_context_returns [OF raw v, of example_os, unfolded example_expanduser]
  have c: "config list_state = Some example_config"
    and a: "args list_state = []"
    and l: "length (heap list_state) = 1" and t: "trace list_state = []"
    by (simp_all add: list_state_def example_state_def)
  have h: "handler failing_collaborators = failing_handler"
    by (simp add: failing_collaborators_def)
  show ?thesis
    by (simp add: execute_list_def self_config_def c g a l t invoke_def h failing_handler_def)
qed

text \<open>
  Claim C7, amended. For every action, an exception raised by the handler of the action is
  raised by the dispatch method as it is: not suppressed, not wrapped. \<^verbatim>\<open>execute_install\<close>
  logs it with \<^verbatim>\<open>log.exception\<close> before raising it again, when it is an instance of
  \<^verbatim>\<open>Exception\<close>; the methods of the other actions (build, info, list, remove, version) write
  no log record: after the call of the handler nothing is added to the record of effects.
\<close>

theorem handler_exceptions_propagate:
  assumes "handler c k = Inl e"
  shows
   "(\<forall>cfg ctx s1.
       config s = Some cfg \<and> get_galaxy_context os (options s) cfg s = (Inr ctx, s1) \<longrightarrow>
         (\<forall>b. make_build_context os (options s) = Inr b \<and> k = Build ctx b \<longrightarrow>
              execute_build c os s = (Inl e, s1\<lparr>trace := trace s1 @ [Called k]\<rparr>))
       \<and> (\<forall>offline. args s \<noteq> [] \<and> options s ''offline'' = Some offline
              \<and> k = Info ctx (api s1) (args s) offline \<longrightarrow>
              execute_info c os s = (Inl e, s1\<lparr>trace := trace s1 @ [Called k]\<rparr>))
       \<and> (install_call ctx (options s) (args s) = Inr k \<longrightarrow>
              execute_install c os s =
                (Inl e, s1\<lparr>trace := trace s1 @ Called k #
                           (if is_Exception e then [LogException e] else [])\<rparr>))
       \<and> (args s \<noteq> [] \<and> k = Remove ctx (MatchLabels (args s)) \<longrightarrow>
              execute_remove c os s = (Inl e, s1\<lparr>trace := trace s1 @ [Called k]\<rparr>))
       \<and> (k = List_action ctx
                  (if args s = [] then MatchAll else MatchNamespacesOrLabels (args s)) \<longrightarrow>
              execute_list c os s = (Inl e, s1\<lparr>trace := trace s1 @ [Called k]\<rparr>)))
    \<and> (\<forall>p. config_file_path s = Some p \<and> k = Version p (cli_version c) \<longrightarrow>
           execute_version c os s = (Inl e, s\<lparr>trace := trace s @ [Called k]\<rparr>))"
proof (intro conjI allI impI)
  fix cfg ctx s1
  assume a: "config s = Some cfg \<and> get_galaxy_context os (options s) cfg s = (Inr ctx, s1)"
  { fix b assume "make_build_context os (options s) = Inr b \<and> k = Build ctx b"
    with a assms show "execute_build c os s = (Inl e, s1\<lparr>trace := trace s1 @ [Called k]\<rparr>)"
      by (simp add: execute_build_def self_config_def invoke_def) }
  { fix offline
    assume "args s \<noteq> [] \<and> options s ''offline'' = Some offline
              \<and> k = Info ctx (api s1) (args s) offline"
    with a assms show "execute_info c os s = (Inl e, s1\<lparr>trace := trace s1 @ [Called k]\<rparr>)"
      by (simp add: execute_info_def self_config_def invoke_def getattr_def) }
  { assume "install_call ctx (options s) (args s) = Inr k"
    with a assms show "execute_install c os s =
                (Inl e, s1\<lparr>trace := trace s1 @ Called k #
                           (if is_Exception e then [LogException e] else [])\<rparr>)"
      by (simp add: execute_install_def self_config_def invoke_def except_Exception_def) }
  { assume "args s \<noteq> [] \<and> k = Remove ctx (MatchLabels (args s))"
    with a assms show "execute_remove c os s = (Inl e, s1\<lparr>trace := trace s1 @ [Called k]\<rparr>)"
      by (simp add: execute_remove_def self_config_def invoke_def Let_def) }
  { assume "k = List_action ctx
                  (if args s = [] then MatchAll else MatchNamespacesOrLabels (args s))"
    with a assms show "execute_list c os s = (Inl e, s1\<lparr>trace := trace s1 @ [Called k]\<rparr>)"
      by (cases "args s = []") (simp_all add: execute_list_def self_config_def invoke_def Let_def) }
next
  fix p assume "config_file_path s = Some p \<and> k = Version p (cli_version c)"
  with assms show "execute_version c os s = (Inl e, s\<lparr>trace := trace s @ [Called k]\<rparr>)"
    by (simp add: execute_version_def self_config_file_path_def invoke_def)
qed

theorem handler_exceptions_propagate_witness:
  "fst (execute_install failing_collaborators example_os install_state) =
     Inl (OtherError ''connection reset'')
   \<and> logged (trace (snd (execute_install failing_collaborators example_os install_state))) =
       [OtherError ''connection reset'']
   \<and> execute_version failing_collaborators example_os install_state =
       (Inl (OtherError ''connection reset''),
        install_state\<lparr>trace := [Called (Version ''/home/alice/.ansible/mazer.yml'' ''0.4.0'')]\<rparr>)"
proof -
  let ?ctx = "GalaxyContext 1 ''/home/alice/.ansible/content''"
  let ?k = "Install ?ctx PNone [''ns.repo''] ''all'' PNone (PBool False) (PBool False) (PBool False)"
  let ?v = "Version ''/home/alice/.ansible/mazer.yml'' ''0.4.0''"
  have raw: "raw_content_path (options install_state) example_config = PStr ''~/.ansible/content''"
    by (simp add: raw_content_path_def hasattr_def getattr_default_def py_or_def
          install_state_def example_state_def example_config_def)
  have v: "server example_config < length (heap install_state)"
    by (simp add: install_state_def example_state_def example_config_def)
  note g = get_galaxy_context_returns [OF raw v, of example_os, unfolded example_expanduser]
  have c: "config install_state = Some example_config"
    and l: "length (heap install_state) = 1" and t: "trace install_state = []"
    and f: "config_file_path install_state = Some ''/home/alice/.ansible/mazer.yml''"
    by (simp_all add: install_state_def example_state_def)
  have ic: "install_call ?ctx (options install_state) (args install_state) = Inr ?k"
    by (simp add: install_call_def and_then_def getattr_def install_state_def)
  have h1: "handler failing_collaborators ?k = Inl (OtherError ''connection reset'')"
    and h2: "handler failing_collaborators ?v = Inl (OtherError ''connection reset'')"
    and cv: "cli_version failing_collaborators = ''0.4.0''"
    by (simp_all add: failing_collaborators_def failing_handler_def example_collaborators_def)
  from handler_exceptions_propagate [OF h1, of install_state example_os]
  have "\<forall>cfg ctx s1.
       config install_state = Some cfg
       \<and> get_galaxy_context example_os (options install_state) cfg install_state = (Inr ctx, s1) \<longrightarrow>
         (install_call ctx (options install_state) (args install_state) = Inr ?k \<longrightarrow>
              execute_install failing_collaborators example_os install_state =
                (Inl (OtherError ''connection reset''), s1\<lparr>trace := trace s1 @ Called ?k #
                           (if is_Exception (OtherError ''connection reset'')
                            then [LogException (OtherError ''connection reset'')] else [])\<rparr>))"
    by blast
  from this c g ic l have i: "fst (execute_install failing_collaborators example_os install_state) =
     Inl (OtherError ''connection reset'')
   \<and> logged (trace (snd (execute_install failing_collaborators example_os install_state))) =
       [OtherError ''connection reset'']"
    by (simp add: t)
  from handler_exceptions_propagate [OF h2, of install_state example_os]
  have "\<forall>p. config_file_path install_state = Some p
            \<and> ?v = Version p (cli_version failing_collaborators) \<longrightarrow>
           execute_version failing_collaborators example_os install_state =
             (Inl (OtherError ''connection reset''),
              install_state\<lparr>trace := trace install_state @ [Called ?v]\<rparr>)"
    by blast
  with f cv t i show ?thesis by simp
qed

subsection \<open>The configuration file\<close>

lemma config_path_from_frame:
  "loads (trace (snd (config_path_from os vs s))) = loads (trace s)"
  by (induction vs) (simp_all add: Let_def loads_append)

lemma get_config_path_from_env_value:
  "fst (get_config_path_from_env os s) =
     (case nonempty_env os ''MAZER_CONFIG'' of
        Some p \<Rightarrow> PStr p
      | None \<Rightarrow>
          (case nonempty_env os ''ANSIBLE_GALAXY_CONFIG'' of
             Some q \<Rightarrow> PStr q
           | None \<Rightarrow> PNone))"
  by (simp add: get_config_path_from_env_def nonempty_env_def Let_def split: option.splits)

lemma raw_config_file_path:
  "py_or (fst (get_config_path_from_env os s)) (PStr (CONFIG_FILE c)) =
     PStr (chosen_config_path c os)"
  by (auto simp: get_config_path_from_env_value chosen_config_path_def py_or_def
        nonempty_env_def split: option.splits if_splits)

lemma execute_build_frame:
  "loads (trace (snd (execute_build c os s))) = loads (trace s)
   \<and> config_file_path (snd (execute_build c os s)) = config_file_path s"
  by (auto simp: execute_build_def self_config_def invoke_def loads_append
        split: option.splits sum.splits prod.splits dest: get_galaxy_context_frame)

lemma execute_info_frame:
  "loads (trace (snd (execute_info c os s))) = loads (trace s)
   \<and> config_file_path (snd (execute_info c os s)) = config_file_path s"
  by (auto simp: execute_info_def self_config_def invoke_def loads_append
        split: option.splits sum.splits prod.splits dest: get_galaxy_context_frame)

lemma execute_install_frame:
  "loads (trace (snd (execute_install c os s))) = loads (trace s)
   \<and> config_file_path (snd (execute_install c os s)) = config_file_path s"
  by (auto simp: execute_install_def self_config_def invoke_def loads_append except_Exception_def
        split: option.splits sum.splits prod.splits dest: get_galaxy_context_frame)

lemma execute_remove_frame:
  "loads (trace (snd (execute_remove c os s))) = loads (trace s)
   \<and> config_file_path (snd (execute_remove c os s)) = config_file_path s"
  by (auto simp: execute_remove_def self_config_def invoke_def loads_append Let_def
        split: option.splits sum.splits prod.splits dest: get_galaxy_context_frame)

lemma execute_list_frame:
  "loads (trace (snd (execute_list c os s))) = loads (trace s)
   \<and> config_file_path (snd (execute_list c os s)) = config_file_path s"
  by (auto simp: execute_list_def self_config_def invoke_def loads_append Let_def
        split: option.splits sum.splits prod.splits dest: get_galaxy_context_frame)

lemma execute_version_frame:
  "loads (trace (snd (execute_version c os s))) = loads (trace s)
   \<and> config_file_path (snd (execute_version c os s)) = config_file_path s"
  by (auto simp: execute_version_def self_config_file_path_def invoke_def loads_append
        split: option.splits sum.splits)

lemma execute_frame:
  "loads (trace (snd (execute c os s))) = loads (trace s)
   \<and> config_file_path (snd (execute c os s)) = config_file_path s"
  by (simp add: execute_def execute_build_frame execute_info_frame execute_install_frame
        execute_remove_frame execute_list_frame execute_version_frame)

lemma path_join_absolute: "take 1 a = [sep] \<Longrightarrow> take 1 (path_join a b) = [sep]"
  by (cases a; cases b) (auto simp: path_join_def)

lemma normpath_absolute: "take 1 p = [sep] \<Longrightarrow> take 1 (normpath p) = [sep]"
  by (cases p) (auto simp: normpath_def Let_def numeral_2_eq_2)

lemma abspath_absolute: "take 1 (getcwd os) = [sep] \<Longrightarrow> take 1 (abspath os p) = [sep]"
  using normpath_absolute [of p] normpath_absolute [of "path_join (getcwd os) p"]
    path_join_absolute [of "getcwd os" p]
  by (auto simp: abspath_def)

text \<open>
  Claim C3, as stated, fails: with \<^verbatim>\<open>MAZER_CONFIG\<close> not set and \<^verbatim>\<open>ANSIBLE_GALAXY_CONFIG\<close>
  set, to the empty string, the loader is given the built-in default path (expanded), not
  the path that the value of the variable would give (the current directory).
\<close>

theorem legacy_variable_empty_counterexample:
  "environ empty_legacy_os ''MAZER_CONFIG'' = None
   \<and> environ empty_legacy_os ''ANSIBLE_GALAXY_CONFIG'' = Some []
   \<and> abspath empty_legacy_os (expanduser empty_legacy_os []) = ''/work''
   \<and> loads (trace (snd (run example_collaborators empty_legacy_os example_state))) =
       [''/home/alice/.ansible/mazer.yml'']"
proof -
  have e: "environ empty_legacy_os ''MAZER_CONFIG'' = None"
    "environ empty_legacy_os ''ANSIBLE_GALAXY_CONFIG'' = Some []"
    by (simp_all add: empty_legacy_os_def)
  have g: "get_config_path_from_env empty_legacy_os example_state = (PNone, example_state)"
    by (simp add: get_config_path_from_env_def e)
  have x: "expanduser empty_legacy_os ''~/.ansible/mazer.yml'' = ''/home/alice/.ansible/mazer.yml''"
    by (simp add: expanduser_def userhome_def expand_with_def rstrip_sep_def sep_def
          empty_legacy_os_def Let_def)
  have a: "abspath empty_legacy_os ''/home/alice/.ansible/mazer.yml'' =
             ''/home/alice/.ansible/mazer.yml''"
    by (simp add: abspath_def normpath_def normpath_step_def sep_def Let_def)
  have w: "abspath empty_legacy_os (expanduser empty_legacy_os []) = ''/work''"
    by (simp add: expanduser_def abspath_def path_join_def normpath_def normpath_step_def
          sep_def empty_legacy_os_def Let_def)
  have c: "CONFIG_FILE example_collaborators = ''~/.ansible/mazer.yml''"
    "base_run example_collaborators = None"
    "config_load example_collaborators ''/home/alice/.ansible/mazer.yml'' =
       Inl (OtherError ''no configuration'')"
    by (simp_all add: example_collaborators_def no_config_def)
  have t: "trace example_state = []" by (simp add: example_state_def)
  have "run example_collaborators empty_legacy_os example_state =
          (Inl (OtherError ''no configuration''),
           example_state\<lparr>config_file_path := Some ''/home/alice/.ansible/mazer.yml'',
                         trace := [ConfigLoad ''/home/alice/.ansible/mazer.yml'']\<rparr>)"
    by (simp add: run_def g py_or_def py_expanduser_def c x a t)
  with e w show ?thesis by simp
qed

text \<open>
  Claim C3, amended. In every environment, \<^verbatim>\<open>run\<close> stores as the path of the configuration
  file the absolute path (\<^verbatim>\<open>os.path.abspath\<close>) of the home expansion
  (\<^verbatim>\<open>os.path.expanduser\<close>) of the raw path chosen by precedence: \<^verbatim>\<open>MAZER_CONFIG\<close> when set
  to a value that is not empty, else \<^verbatim>\<open>ANSIBLE_GALAXY_CONFIG\<close> when set to a value that is
  not empty, else the built-in default. That path starts with the separator whenever the
  current directory does (as \<^verbatim>\<open>os.getcwd\<close> always does): it is absolute. When the \<^verbatim>\<open>run\<close> of
  the base class returns, the configuration loader is called exactly once, with that path;
  when it raises, the loader is not called.
\<close>

theorem config_file_path_resolution:
  "config_file_path (snd (run c os s)) =
     Some (abspath os (expanduser os (chosen_config_path c os)))
   \<and> (take 1 (getcwd os) = [sep] \<longrightarrow>
        (\<exists>p. config_file_path (snd (run c os s)) = Some p \<and> take 1 p = [sep]))
   \<and> (base_run c = None \<longrightarrow>
        loads (trace (snd (run c os s))) =
          loads (trace s) @ [abspath os (expanduser os (chosen_config_path c os))])
   \<and> (take 1 (getcwd os) = [sep] \<and> base_run c = None \<longrightarrow>
        (\<exists>p. loads (trace (snd (run c os s))) = loads (trace s) @ [p] \<and> take 1 p = [sep]))
   \<and> (\<forall>e. base_run c = Some e \<longrightarrow>
        fst (run c os s) = Inl e \<and> loads (trace (snd (run c os s))) = loads (trace s))"
proof -
  let ?path = "abspath os (expanduser os (chosen_config_path c os))"
  obtain r s1 where g: "get_config_path_from_env os s = (r, s1)"
    by (cases "get_config_path_from_env os s")
  from raw_config_file_path [of os s c] g
  have raw: "py_or r (PStr (CONFIG_FILE c)) = PStr (chosen_config_path c os)" by simp
  from config_path_from_frame [of os "[''MAZER_CONFIG'', ''ANSIBLE_GALAXY_CONFIG'']" s] g
  have l1: "loads (trace s1) = loads (trace s)"
    by (simp add: get_config_path_from_env_def)
  let ?s2 = "s1\<lparr>config_file_path := Some ?path\<rparr>"
  let ?s3 = "?s2\<lparr>trace := trace ?s2 @ [ConfigLoad ?path]\<rparr>"
  have main: "config_file_path (snd (run c os s)) = Some ?path
   \<and> (base_run c = None \<longrightarrow> loads (trace (snd (run c os s))) = loads (trace s) @ [?path])
   \<and> (\<forall>e. base_run c = Some e \<longrightarrow>
        fst (run c os s) = Inl e \<and> loads (trace (snd (run c os s))) = loads (trace s))"
  proof (cases "base_run c")
    case (Some e)
    then have "run c os s = (Inl e, ?s2)"
      by (simp add: run_def g raw py_expanduser_def Let_def)
    with Some l1 show ?thesis by simp
  next
    case None
    show ?thesis
    proof (cases "config_load c ?path")
      case (Inl e)
      with None have "run c os s = (Inl e, ?s3)"
        by (simp add: run_def g raw py_expanduser_def Let_def)
      with None l1 show ?thesis by (simp add: loads_append)
    next
      case (Inr doc)
      obtain srv cp gcp where doc: "doc = (srv, cp, gcp)" by (cases doc)
      let ?cfg = "\<lparr>server = length (heap ?s3), content_path = cp, global_content_path = gcp\<rparr>"
      let ?s4 = "?s3\<lparr>config := Some ?cfg, heap := heap ?s3 @ [srv]\<rparr>"
      obtain rc s5 where gc: "get_galaxy_context os (options ?s4) ?cfg ?s4 = (rc, s5)"
        by (cases "get_galaxy_context os (options ?s4) ?cfg ?s4")
      from get_galaxy_context_frame [OF gc]
      have f5: "loads (trace s5) = loads (trace s) @ [?path]"
        and p5: "config_file_path s5 = Some ?path"
        by (simp_all add: loads_append l1)
      show ?thesis
      proof (cases rc)
        case (Inl e)
        with None Inr doc gc have "run c os s = (Inl e, s5)"
          by (simp add: run_def g raw py_expanduser_def Let_def alloc_def)
        with None f5 p5 show ?thesis by simp
      next
        case (Inr ctx)
        let ?s6 = "s5\<lparr>api := Some ctx, trace := trace s5 @ [NewAPI ctx]\<rparr>"
        from None \<open>config_load c ?path = Inr doc\<close> doc gc Inr
        have "run c os s = execute c os ?s6"
          by (simp add: run_def g raw py_expanduser_def Let_def alloc_def)
        with execute_frame [of c os ?s6] None f5 p5 show ?thesis
          by (simp add: loads_append)
      qed
    qed
  qed
  have ab: "take 1 (getcwd os) = [sep] \<Longrightarrow> take 1 ?path = [sep]"
    by (rule abspath_absolute)
  from main ab show ?thesis by blast
qed

theorem config_file_path_resolution_witness:
  "take 1 (getcwd relative_os) = [sep]
   \<and> config_file_path (snd (run example_collaborators relative_os example_state)) =
       Some ''/work/mazer.yml''
   \<and> loads (trace (snd (run example_collaborators relative_os example_state))) =
       [''/work/mazer.yml'']
   \<and> loads (trace (snd (run example_collaborators legacy_os example_state))) =
       [''/home/alice/galaxy.yml'']"
proof -
  have cw: "take 1 (getcwd relative_os) = [sep]"
    by (simp add: relative_os_def sep_def)
  have ch: "chosen_config_path example_collaborators relative_os = ''conf/../mazer.yml''"
    by (simp add: chosen_config_path_def nonempty_env_def relative_os_def)
  have ex: "expanduser relative_os ''conf/../mazer.yml'' = ''conf/../mazer.yml''"
    by (simp add: expanduser_def)
  have ab: "abspath relative_os ''conf/../mazer.yml'' = ''/work/mazer.yml''"
    by (simp add: abspath_def path_join_def normpath_def normpath_step_def sep_def
          relative_os_def Let_def)
  have ch': "chosen_config_path example_collaborators legacy_os = ''~/galaxy.yml''"
    by (simp add: chosen_config_path_def nonempty_env_def legacy_os_def)
  have ex': "expanduser legacy_os ''~/galaxy.yml'' = ''/home/alice/galaxy.yml''"
    by (simp add: expanduser_def userhome_def expand_with_def rstrip_sep_def sep_def
          legacy_os_def Let_def)
  have ab': "abspath legacy_os ''/home/alice/galaxy.yml'' = ''/home/alice/galaxy.yml''"
    by (simp add: abspath_def normpath_def normpath_step_def sep_def Let_def)
  have br: "base_run example_collaborators = None"
    by (simp add: example_collaborators_def)
  have t: "trace example_state = []" by (simp add: example_state_def)
  from config_file_path_resolution [of example_collaborators relative_os example_state]
  have 1: "config_file_path (snd (run example_collaborators relative_os example_state)) =
       Some ''/work/mazer.yml''
   \<and> loads (trace (snd (run example_collaborators relative_os example_state))) =
       [''/work/mazer.yml'']"
    by (simp add: ch ex ab br t)
  from config_file_path_resolution [of example_collaborators legacy_os example_state]
  have 2: "loads (trace (snd (run example_collaborators legacy_os example_state))) =
       [''/home/alice/galaxy.yml'']"
    by (simp add: ch' ex' ab' br t)
  from cw 1 2 show ?thesis by simp
qed

end
